theory Spec2Isabelle
  imports Complex_Main
begin

section \<open>Values, errors and chart objects\<close>

text \<open>
  Python floats are idealised as the reals. All four documented failures of
  \<^verbatim>\<open>plot_learning_curve\<close> are \<^verbatim>\<open>ValueError\<close>s in the source; they are told
  apart here by the data their messages carry. \<open>UnboundLocal\<close> is Python's error for reading
  a local variable that no executed statement has assigned, \<open>DuplicateKeyword\<close> its
  \<^verbatim>\<open>TypeError\<close> for a keyword argument given twice, and \<open>AucValueError\<close> the
  \<^verbatim>\<open>ValueError\<close> of \<^verbatim>\<open>sklearn.metrics.auc\<close>.
\<close>

datatype error =
    LengthMismatch nat nat
  | NonMonotonicTimestamps real real nat nat
  | TimestampBeforeStart real nat real
  | InvalidMethod
  | UnboundLocal string
  | DuplicateKeyword string
  | AucValueError

datatype xlabel = FormulaLabel int int | GenericLabel

datatype legend_label = NamedALC string real | PlainALC real

datatype style = Str string | Num real | PyNone | Lab legend_label

datatype artist =
    Title "string option"
  | XLabel xlabel
  | XLim real real
  | YLabel string
  | YLim real real
  | Grid
  | XTicks "real list"
  | XTickLabels "int list"
  | Plot "real list" "real list" "string option" "string \<rightharpoonup> style"
  | FillBetween "real list" "real list" string "string option"
  | Text real real real
  | Legend

text \<open>
  The plotting library's state as far as the source reads and writes it: every figure is the
  list of its axes (\<^verbatim>\<open>fig.axes\<close>), every axes the list of what was drawn on it; \<open>gcf\<close>
  is pyplot's current figure. The logger keeps the index named by each warning.
\<close>

record world =
  figures :: "artist list list list"
  gcf :: "nat option"
  warnings :: "nat list"

text \<open>
  The plotter object. The field \<^verbatim>\<open>self.method\<close> is called \<open>alc_method\<close> here; the
  other fields keep their names.
\<close>

record plotter =
  alc_method :: string
  transform :: "(real \<Rightarrow> real) option"
  task_name :: "string option"
  area_color :: string
  fill_area :: bool
  model_name :: "string option"
  clear_figure :: bool
  fig :: "nat option"
  show_final_score :: bool
  show_title :: bool
  kwargs :: "string \<rightharpoonup> style"
  cur_frame :: nat
  ax :: "(nat \<times> nat) option"

definition fig_axes :: "world \<Rightarrow> nat \<Rightarrow> artist list list" where
  "fig_axes w f = (if f < length (figures w) then figures w ! f else [])"

definition figure :: "world \<Rightarrow> nat \<times> world" where
  "figure w =
     (length (figures w), w\<lparr>figures := figures w @ [[]], gcf := Some (length (figures w))\<rparr>)"

definition clf :: "world \<Rightarrow> world" where
  "clf w = (case gcf w of
              None \<Rightarrow> snd (figure w)
            | Some f \<Rightarrow> w\<lparr>figures := (figures w)[f := []]\<rparr>)"

definition add_subplot :: "nat \<Rightarrow> world \<Rightarrow> world" where
  "add_subplot f w = w\<lparr>figures := (figures w)[f := fig_axes w f @ [[]]]\<rparr>"

definition draw :: "nat \<Rightarrow> nat \<Rightarrow> artist \<Rightarrow> world \<Rightarrow> world" where
  "draw f a art w =
     w\<lparr>figures := (figures w)[f := (fig_axes w f)[a := fig_axes w f ! a @ [art]]]\<rparr>"

definition subplots :: "world \<Rightarrow> nat \<times> world" where
  "subplots w = (let (f, w') = figure w in (f, add_subplot f w'))"

section \<open>Collaborators outside the source file\<close>

text \<open>
  Modelled from the spec: \<^verbatim>\<open>autodl.utils.util.transform_time\<close> is not among the sources.
  The spec gives the canonical transform as
  \<open>log (1 + t / t0) / log (1 + time_budget / t0)\<close> of the relative time \<open>t\<close>.
\<close>

definition transform_time :: "real \<Rightarrow> real \<Rightarrow> real \<Rightarrow> real" where
  "transform_time t T t0 = ln (1 + t / t0) / ln (1 + T / t0)"

text \<open>
  Modelled from the spec: \<^verbatim>\<open>autodl.auto_scoring.score.auc_step\<close> is not among the
  sources. The spec calls it the step-function (right-continuous, steps-post) quadrature over
  parallel sequences: every interval is weighted by the value at its left end.
\<close>

fun auc_step :: "real list \<Rightarrow> real list \<Rightarrow> real" where
  "auc_step (x # x' # xs) (y # ys) = (x' - x) * y + auc_step (x' # xs) ys"
| "auc_step _ _ = 0"

text \<open>
  \<^verbatim>\<open>sklearn.metrics.auc\<close> belongs to an external library: the trapezoidal rule, refused
  when the sequences differ in length, have fewer than two points, or when the abscissae are
  neither non-decreasing nor non-increasing; a non-increasing sequence that does decrease
  flips the sign.
\<close>

fun trapezoid :: "real list \<Rightarrow> real list \<Rightarrow> real" where
  "trapezoid (x # x' # xs) (y # y' # ys) = (x' - x) * (y + y') / 2 + trapezoid (x' # xs) (y' # ys)"
| "trapezoid _ _ = 0"

fun diff :: "real list \<Rightarrow> real list" where
  "diff (x # x' # xs) = (x' - x) # diff (x' # xs)"
| "diff _ = []"

definition auc :: "real list \<Rightarrow> real list \<Rightarrow> error + real" where
  "auc x y =
     (if length x \<noteq> length y \<or> length x < 2 then Inl AucValueError
      else if list_ex (\<lambda>d. d < 0) (diff x)
           then (if list_all (\<lambda>d. d \<le> 0) (diff x) then Inr (- trapezoid x y)
                 else Inl AucValueError)
           else Inr (trapezoid x y))"

section \<open>The plotter\<close>

text \<open>\<^verbatim>\<open>init_plot\<close>: \<^verbatim>\<open>self.fig, self.ax = plt.subplots()\<close>.\<close>

definition init_plot :: "plotter \<Rightarrow> world \<Rightarrow> plotter \<times> world" where
  "init_plot self w =
     (let (f, w') = subplots w in (self\<lparr>fig := Some f, ax := Some (f, 0)\<rparr>, w'))"

text \<open>\<^verbatim>\<open>__init__\<close>, its keyword arguments in the order of the signature.\<close>

definition PlotAlc ::
  "string \<Rightarrow> (real \<Rightarrow> real) option \<Rightarrow> string option \<Rightarrow> string \<Rightarrow> bool \<Rightarrow> string option \<Rightarrow>
   bool \<Rightarrow> bool \<Rightarrow> bool \<Rightarrow> (string \<rightharpoonup> style) \<Rightarrow> world \<Rightarrow> plotter \<times> world" where
  "PlotAlc m tr tn ac fa mn cf sfs st kw w =
     init_plot
       \<lparr>alc_method = m, transform = tr, task_name = tn, area_color = ac, fill_area = fa,
        model_name = mn, clear_figure = cf, fig = None, show_final_score = sfs,
        show_title = st, kwargs = kw, cur_frame = 0, ax = None\<rparr> w"

subsection \<open>\<^verbatim>\<open>check_conditions\<close>\<close>

text \<open>
  The loop \<^verbatim>\<open>for i in range(le)\<close>, started at \<open>i\<close>. At every index the order test
  comes first and the start-time test second. (\<open>le - 1\<close> is only read under \<open>i < le\<close>,
  where the subtraction on naturals is the one on integers.)
\<close>

function check_loop :: "nat \<Rightarrow> real list \<Rightarrow> real \<Rightarrow> error option" where
  "check_loop i timestamps start_time =
     (if i < length timestamps then
        (if i < length timestamps - 1 \<and> \<not> timestamps ! i \<le> timestamps ! (i + 1)
         then Some (NonMonotonicTimestamps (timestamps ! i) (timestamps ! (i + 1)) i (i + 1))
         else if timestamps ! i < start_time
         then Some (TimestampBeforeStart (timestamps ! i) i start_time)
         else check_loop (i + 1) timestamps start_time)
      else None)"
  by pat_completeness auto
termination
  by (relation "measure (\<lambda>(i, timestamps, start_time). length timestamps - i)") auto

declare check_loop.simps [simp del]

definition check_conditions :: "real list \<Rightarrow> real list \<Rightarrow> real \<Rightarrow> error option" where
  "check_conditions timestamps scores start_time =
     (let le = length timestamps in
      if \<not> le = length scores then Some (LengthMismatch le (length scores))
      else check_loop 0 timestamps start_time)"

subsection \<open>\<^verbatim>\<open>plot_learning_curve\<close>, stage by stage\<close>

text \<open>Lines 98-102: the late timestamps are filtered out, the scores cut to the same length.\<close>

definition truncate ::
  "real list \<Rightarrow> real list \<Rightarrow> real \<Rightarrow> real \<Rightarrow> world \<Rightarrow> real list \<times> real list \<times> world" where
  "truncate timestamps scores start_time time_budget w =
     (let le = length timestamps;
          timestamps' = filter (\<lambda>t. t \<le> time_budget + start_time) timestamps
      in if length timestamps' < le
         then (timestamps', take (length timestamps') scores,
               w\<lparr>warnings := warnings w @ [length timestamps']\<rparr>)
         else (timestamps', scores, w))"

text \<open>Python's \<^verbatim>\<open>int\<close> of a float rounds towards zero.\<close>

definition py_int :: "real \<Rightarrow> int" where
  "py_int x = (if 0 \<le> x then \<lfloor>x\<rfloor> else \<lceil>x\<rceil>)"

text \<open>
  Lines 103-112. Only the branch for \<^verbatim>\<open>self.transform is None\<close> assigns the local
  \<^verbatim>\<open>transform\<close>; in the other branch it stays unbound (\<open>None\<close> here), and
  \<^verbatim>\<open>self.transform\<close> is not read again.
\<close>

definition choose_transform :: "plotter \<Rightarrow> real \<Rightarrow> (real \<Rightarrow> real) option \<times> xlabel" where
  "choose_transform self time_budget =
     (if transform self = None
      then (let t0 = 60 in
            (Some (\<lambda>t. transform_time t time_budget t0), FormulaLabel (py_int time_budget) (py_int t0)))
      else (None, GenericLabel))"

text \<open>
  \<^verbatim>\<open>[transform(t) for t in ts]\<close>: the name is looked up once per element, so an empty
  list never reads it.
\<close>

definition apply_transform :: "(real \<Rightarrow> real) option \<Rightarrow> real list \<Rightarrow> error + real list" where
  "apply_transform tr ts =
     (if ts = [] then Inr []
      else case tr of None \<Rightarrow> Inl (UnboundLocal ''transform'') | Some f \<Rightarrow> Inr (map f ts))"

text \<open>\<^verbatim>\<open>range(a, b, s)\<close> for a positive step.\<close>

definition py_range :: "int \<Rightarrow> int \<Rightarrow> int \<Rightarrow> int list" where
  "py_range a b s = map (\<lambda>k. a + s * k) [0..(b - a - 1) div s]"

text \<open>
  Lines 124-140. The local \<^verbatim>\<open>fig\<close> is assigned only when a figure is created; the
  result is \<open>None\<close> when it stays unbound. \<^verbatim>\<open>plt.title\<close> writes on the axes just added.
\<close>

definition setup_figure ::
  "plotter \<Rightarrow> (real \<Rightarrow> real) option \<Rightarrow> xlabel \<Rightarrow> real \<Rightarrow> world \<Rightarrow> (error + nat option) \<times> world" where
  "setup_figure self tr xl time_budget w =
     (let w1 = (if clear_figure self then clf w else w) in
      if (case fig self of None \<Rightarrow> True | Some sf \<Rightarrow> length (fig_axes w1 sf) = 0) then
        (let (f, w2) = figure w1;
             w3 = add_subplot f w2;
             w4 = (if show_title self then draw f 0 (Title (task_name self)) w3 else w3);
             w5 = draw f 0 (XLabel xl) w4;
             w6 = draw f 0 (XLim 0 1) w5;
             w7 = draw f 0 (YLabel ''score (2 * AUC - 1)'') w6;
             w8 = draw f 0 (YLim (- (1 / 100)) 1) w7;
             w9 = draw f 0 Grid w8;
             w10 = add_subplot f w9;
             ticks = [10, 60, 300, 600, 1200] @ py_range 1800 (py_int time_budget + 1) 1800
         in case apply_transform tr (map real_of_int ticks) of
              Inl e \<Rightarrow> (Inl e, w10)
            | Inr xs \<Rightarrow> (Inr (Some f), draw f 1 (XTickLabels ticks) (draw f 1 (XTicks xs) w10)))
      else (Inr None, w1))"

text \<open>Lines 142-152.\<close>

definition select_method ::
  "string \<Rightarrow> error + string \<times> string option \<times> (real list \<Rightarrow> real list \<Rightarrow> error + real)" where
  "select_method m =
     (if m = ''step'' then Inr (''steps-post'', Some ''post'', \<lambda>X Y. Inr (auc_step X Y))
      else if m = ''trapez'' then Inr (''default'', None, auc)
      else Inl InvalidMethod)"

text \<open>
  Lines 158-182. The writes to \<^verbatim>\<open>self.kwargs\<close> are in place, so they outlive the call
  also when it fails later. \<^verbatim>\<open>ax.plot(..., drawstyle=drawstyle, **self.kwargs)\<close> is a
  \<^verbatim>\<open>TypeError\<close> when the dictionary has the key \<^verbatim>\<open>drawstyle\<close> itself.
\<close>

definition draw_curve ::
  "plotter \<Rightarrow> nat \<Rightarrow> real list \<Rightarrow> real list \<Rightarrow> string \<Rightarrow> string option \<Rightarrow> real \<Rightarrow> world \<Rightarrow>
   (error + unit) \<times> plotter \<times> world" where
  "draw_curve self f X Y drawstyle step alc w =
     (let label = (case model_name self of
                     None \<Rightarrow> PlainALC alc
                   | Some n \<Rightarrow> if n = [] then PlainALC alc else NamedALC n alc);
          k0 = kwargs self;
          k1 = (if ''marker'' \<notin> dom k0 then k0(''marker'' \<mapsto> Str ''o'') else k0);
          k2 = (if ''markersize'' \<notin> dom k1 then k1(''markersize'' \<mapsto> Num 3) else k1);
          k3 = (if ''label'' \<notin> dom k2 then k2(''label'' \<mapsto> Lab label) else k2)
      in if ''drawstyle'' \<in> dom k3
         then (Inl (DuplicateKeyword ''drawstyle''), self\<lparr>kwargs := k3\<rparr>, w)
         else
          (let w1 = draw f 0 (Plot (butlast X) (butlast Y) (Some drawstyle) k3) w;
               w2 = (if fill_area self
                     then draw f 0 (FillBetween X Y (area_color self) step) w1 else w1);
               w3 = (if show_final_score self
                     then draw f 0 (Text (last X) (last Y) (last Y)) w2 else w2);
               k4 = k3(''linestyle'' \<mapsto> Str ''--'');
               k5 = k4(''linewidth'' \<mapsto> Num 1);
               k6 = k5(''marker'' \<mapsto> PyNone);
               k7 = k6(''label'' := None);
               w4 = draw f 0 (Plot (drop (length X - 2) X) (drop (length Y - 2) Y) None k7) w3;
               w5 = draw f 0 Legend w4
           in (Inr (), self\<lparr>kwargs := k7\<rparr>, w5)))"

text \<open>
  The whole method. An exception leaves the plotter and the library as they were when it was
  raised, so every outcome carries both.
\<close>

definition plot_learning_curve ::
  "plotter \<Rightarrow> world \<Rightarrow> real list \<Rightarrow> real list \<Rightarrow> real \<Rightarrow> real \<Rightarrow>
   (error + real \<times> nat) \<times> plotter \<times> world" where
  "plot_learning_curve self w timestamps scores start_time time_budget =
     (case check_conditions timestamps scores start_time of
        Some e \<Rightarrow> (Inl e, self, w)
      | None \<Rightarrow>
         (let (timestamps', scores', w1) = truncate timestamps scores start_time time_budget w;
              (tr, xl) = choose_transform self time_budget;
              relative_timestamps = map (\<lambda>t. t - start_time) timestamps'
          in case apply_transform tr relative_timestamps of
               Inl e \<Rightarrow> (Inl e, self, w1)
             | Inr X0 \<Rightarrow>
                (let X = 0 # X0; Y = 0 # scores' in
                 case setup_figure self tr xl time_budget w1 of
                   (Inl e, w2) \<Rightarrow> (Inl e, self, w2)
                 | (Inr None, w2) \<Rightarrow> (Inl (UnboundLocal ''fig''), self, w2)
                 | (Inr (Some f), w2) \<Rightarrow>
                    (case select_method (alc_method self) of
                       Inl e \<Rightarrow> (Inl e, self, w2)
                     | Inr (drawstyle, step, auc_func) \<Rightarrow>
                        (let X' = X @ [1]; Y' = Y @ [last Y] in
                         case auc_func X' Y' of
                           Inl e \<Rightarrow> (Inl e, self, w2)
                         | Inr alc \<Rightarrow>
                            (case draw_curve self f X' Y' drawstyle step alc w2 of
                               (Inl e, self', w3) \<Rightarrow> (Inl e, self', w3)
                             | (Inr u, self', w3) \<Rightarrow> (Inr (alc, f), self', w3)))))))"


section \<open>Notions used to state the properties\<close>

text \<open>Index \<open>k\<close> passes both tests of the loop body of \<^verbatim>\<open>check_conditions\<close>.\<close>

definition step_ok :: "real list \<Rightarrow> real \<Rightarrow> nat \<Rightarrow> bool" where
  "step_ok ts s k \<longleftrightarrow> \<not> (k + 1 < length ts \<and> ts ! (k + 1) < ts ! k) \<and> \<not> ts ! k < s"

text \<open>The library after lines 124-125.\<close>

definition cleared :: "plotter \<Rightarrow> world \<Rightarrow> world" where
  "cleared self w = (if clear_figure self then clf w else w)"

text \<open>
  The test of line 126 after lines 124-125: the plotter holds no figure, or the figure it holds
  is left without axes.
\<close>

definition creates_figure :: "plotter \<Rightarrow> world \<Rightarrow> bool" where
  "creates_figure self w \<longleftrightarrow>
     (case fig self of None \<Rightarrow> True | Some sf \<Rightarrow> length (fig_axes (cleared self w) sf) = 0)"

text \<open>A fresh interpreter, and the plotter built with the defaults of the constructor.\<close>

definition empty_world :: world where
  "empty_world = \<lparr>figures = [], gcf = None, warnings = []\<rparr>"

definition default_plotter :: "string \<Rightarrow> plotter \<times> world" where
  "default_plotter m =
     PlotAlc m None None ''cyan'' True None True True True Map.empty empty_world"

text \<open>The failures that can only arise after validation has passed.\<close>

definition later_error :: "error \<Rightarrow> bool" where
  "later_error e \<longleftrightarrow>
     e = UnboundLocal ''transform'' \<or> e = UnboundLocal ''fig'' \<or> e = InvalidMethod \<or>
     e = AucValueError \<or> e = DuplicateKeyword ''drawstyle''"

text \<open>
  What lines 127-140 put on a new figure under the default transform: the main axes with its
  settings, and the twin axes with the ticks of the real seconds.
\<close>

definition ticks_of :: "real \<Rightarrow> int list" where
  "ticks_of time_budget = [10, 60, 300, 600, 1200] @ py_range 1800 (py_int time_budget + 1) 1800"

definition main_axes :: "plotter \<Rightarrow> xlabel \<Rightarrow> artist list" where
  "main_axes self xl =
     (if show_title self then [Title (task_name self)] else []) @
     [XLabel xl, XLim 0 1, YLabel ''score (2 * AUC - 1)'', YLim (- (1 / 100)) 1, Grid]"

definition twin_axes :: "(real \<Rightarrow> real) \<Rightarrow> real \<Rightarrow> artist list" where
  "twin_axes g time_budget =
     [XTicks (map g (map real_of_int (ticks_of time_budget))), XTickLabels (ticks_of time_budget)]"

text \<open>The legend label of lines 158-161.\<close>

definition legend_of :: "plotter \<Rightarrow> real \<Rightarrow> legend_label" where
  "legend_of self alc =
     (case model_name self of
        None \<Rightarrow> PlainALC alc
      | Some n \<Rightarrow> if n = [] then PlainALC alc else NamedALC n alc)"

text \<open>
  The style dictionary as the curve is drawn with it (after lines 163-168) and as the call
  leaves it behind (after lines 177-180).
\<close>

definition kwargs_curve :: "(string \<rightharpoonup> style) \<Rightarrow> legend_label \<Rightarrow> (string \<rightharpoonup> style)" where
  "kwargs_curve k l =
     k(''marker'' \<mapsto> (case k ''marker'' of None \<Rightarrow> Str ''o'' | Some v \<Rightarrow> v),
       ''markersize'' \<mapsto> (case k ''markersize'' of None \<Rightarrow> Num 3 | Some v \<Rightarrow> v),
       ''label'' \<mapsto> (case k ''label'' of None \<Rightarrow> Lab l | Some v \<Rightarrow> v))"

definition kwargs_after :: "(string \<rightharpoonup> style) \<Rightarrow> (string \<rightharpoonup> style)" where
  "kwargs_after k =
     (k(''markersize'' \<mapsto> (case k ''markersize'' of None \<Rightarrow> Num 3 | Some v \<Rightarrow> v),
        ''linestyle'' \<mapsto> Str ''--'',
        ''linewidth'' \<mapsto> Num 1,
        ''marker'' \<mapsto> PyNone))(''label'' := None)"

text \<open>What lines 169-182 draw on the main axes, in order.\<close>

definition curve_artists ::
  "plotter \<Rightarrow> real list \<Rightarrow> real list \<Rightarrow> string \<Rightarrow> string option \<Rightarrow> real \<Rightarrow> artist list" where
  "curve_artists self X Y drawstyle step alc =
     [Plot (butlast X) (butlast Y) (Some drawstyle) (kwargs_curve (kwargs self) (legend_of self alc))] @
     (if fill_area self then [FillBetween X Y (area_color self) step] else []) @
     (if show_final_score self then [Text (last X) (last Y) (last Y)] else []) @
     [Plot (drop (length X - 2) X) (drop (length Y - 2) Y) None (kwargs_after (kwargs self)),
      Legend]"

text \<open>
  The curve in the spec's words: \<open>X\<close> is 0, then the canonical transform of every
  retained relative timestamp, then 1; \<open>Y\<close> is 0, then the retained scores, then the last
  of these values once more.
\<close>

definition retained :: "real list \<Rightarrow> real \<Rightarrow> real \<Rightarrow> real list" where
  "retained timestamps start_time time_budget =
     filter (\<lambda>t. t \<le> time_budget + start_time) timestamps"

definition curve_X :: "real list \<Rightarrow> real \<Rightarrow> real \<Rightarrow> real list" where
  "curve_X timestamps start_time time_budget =
     [0] @ map (\<lambda>t. transform_time (t - start_time) time_budget 60)
             (retained timestamps start_time time_budget) @ [1]"

definition curve_Y :: "real list \<Rightarrow> real list \<Rightarrow> real \<Rightarrow> real \<Rightarrow> real list" where
  "curve_Y timestamps scores start_time time_budget =
     (let kept = take (length (retained timestamps start_time time_budget)) scores
      in [0] @ kept @ [last (0 # kept)])"

text \<open>The library when the figure stage is done, and the figure that stage creates.\<close>

definition new_fig :: "plotter \<Rightarrow> world \<Rightarrow> nat" where
  "new_fig self w = length (figures (cleared self w))"

definition figure_made :: "plotter \<Rightarrow> real \<Rightarrow> world \<Rightarrow> world" where
  "figure_made self time_budget w =
     (cleared self w)
       \<lparr>figures := figures (cleared self w) @
                    [[main_axes self (FormulaLabel (py_int time_budget) 60),
                      twin_axes (\<lambda>t. transform_time t time_budget 60) time_budget]],
        gcf := Some (new_fig self w)\<rparr>"

text \<open>The library after truncation: the warning, if any, is logged.\<close>

definition logged :: "real list \<Rightarrow> real \<Rightarrow> real \<Rightarrow> world \<Rightarrow> world" where
  "logged timestamps start_time time_budget w =
     (if length (retained timestamps start_time time_budget) < length timestamps
      then w\<lparr>warnings := warnings w @ [length (retained timestamps start_time time_budget)]\<rparr>
      else w)"

text \<open>The library after a call that returns.\<close>

definition curve_drawn ::
  "plotter \<Rightarrow> world \<Rightarrow> real list \<Rightarrow> real list \<Rightarrow> real \<Rightarrow> real \<Rightarrow> string \<Rightarrow> string option \<Rightarrow> real \<Rightarrow> world" where
  "curve_drawn self w timestamps scores start_time time_budget drawstyle step alc =
     (figure_made self time_budget (logged timestamps start_time time_budget w))
       \<lparr>figures := figures (cleared self w) @
          [[main_axes self (FormulaLabel (py_int time_budget) 60) @
              curve_artists self (curve_X timestamps start_time time_budget)
                (curve_Y timestamps scores start_time time_budget) drawstyle step alc,
            twin_axes (\<lambda>t. transform_time t time_budget 60) time_budget]]\<rparr>"

text \<open>The plotter built with a custom transform and the other defaults of the constructor.\<close>

definition custom_plotter :: "(real \<Rightarrow> real) \<Rightarrow> plotter \<times> world" where
  "custom_plotter g =
     PlotAlc ''step'' (Some g) None ''cyan'' True None True True True Map.empty empty_world"

text \<open>
  A sequence of calls on one plotter, each given as (timestamps, scores, start time, time
  budget); a caller that catches the exception of a failed call goes on with the next one.
\<close>

fun run_calls ::
  "plotter \<Rightarrow> world \<Rightarrow> (real list \<times> real list \<times> real \<times> real) list \<Rightarrow> plotter \<times> world" where
  "run_calls self w [] = (self, w)"
| "run_calls self w ((timestamps, scores, start_time, time_budget) # calls) =
     (case plot_learning_curve self w timestamps scores start_time time_budget of
        (r, self', w') \<Rightarrow> run_calls self' w' calls)"


section \<open>Validation\<close>

lemma check_loop_end: "\<not> i < length ts \<Longrightarrow> check_loop i ts s = None"
  by (simp add: check_loop.simps [of i])

lemma check_loop_order:
  "i + 1 < length ts \<Longrightarrow> ts ! (i + 1) < ts ! i \<Longrightarrow>
   check_loop i ts s = Some (NonMonotonicTimestamps (ts ! i) (ts ! (i + 1)) i (i + 1))"
  by (auto simp add: check_loop.simps [of i])

lemma check_loop_early:
  "i < length ts \<Longrightarrow> \<not> (i + 1 < length ts \<and> ts ! (i + 1) < ts ! i) \<Longrightarrow> ts ! i < s \<Longrightarrow>
   check_loop i ts s = Some (TimestampBeforeStart (ts ! i) i s)"
  by (auto simp add: check_loop.simps [of i])

lemma check_loop_next:
  "i < length ts \<Longrightarrow> \<not> (i + 1 < length ts \<and> ts ! (i + 1) < ts ! i) \<Longrightarrow> \<not> ts ! i < s \<Longrightarrow>
   check_loop i ts s = check_loop (i + 1) ts s"
  by (auto simp add: check_loop.simps [of i])

lemma check_loop_None_iff:
  "check_loop i ts s = None \<longleftrightarrow> (\<forall>k. i \<le> k \<and> k < length ts \<longrightarrow> step_ok ts s k)"
proof (induction i ts s rule: check_loop.induct)
  case (1 i ts s)
  consider (e) "\<not> i < length ts" | (o) "i + 1 < length ts" "ts ! (i + 1) < ts ! i"
    | (b) "i < length ts" "\<not> (i + 1 < length ts \<and> ts ! (i + 1) < ts ! i)" "ts ! i < s"
    | (n) "i < length ts" "\<not> (i + 1 < length ts \<and> ts ! (i + 1) < ts ! i)" "\<not> ts ! i < s"
    by linarith
  then show ?case
  proof cases
    case e
    then show ?thesis by (auto simp: check_loop_end)
  next
    case o
    then have "\<not> step_ok ts s i" "i < length ts" by (auto simp: step_ok_def)
    then show ?thesis using o by (auto simp: check_loop_order)
  next
    case b
    then have "\<not> step_ok ts s i" by (auto simp: step_ok_def)
    then show ?thesis using b by (auto simp: check_loop_early)
  next
    case n
    then have ok: "step_ok ts s i" by (auto simp: step_ok_def)
    have c: "\<not> (i < length ts - 1 \<and> \<not> ts ! i \<le> ts ! (i + 1))"
      using n by (simp add: less_diff_conv not_le)
    have IH: "check_loop (i + 1) ts s = None \<longleftrightarrow> (\<forall>k. i + 1 \<le> k \<and> k < length ts \<longrightarrow> step_ok ts s k)"
      by (rule "1.IH" [OF n(1) c n(3)])
    have "(\<forall>k. i \<le> k \<and> k < length ts \<longrightarrow> step_ok ts s k) \<longleftrightarrow>
          (\<forall>k. i + 1 \<le> k \<and> k < length ts \<longrightarrow> step_ok ts s k)"
      using ok by (metis Suc_eq_plus1 Suc_leI add_leD1 le_neq_implies_less)
    then show ?thesis using IH check_loop_next [OF n] by simp
  qed
qed

lemma check_loop_NonMonotonic_iff:
  "check_loop i ts s = Some (NonMonotonicTimestamps a b m n) \<longleftrightarrow>
     i \<le> m \<and> m + 1 < length ts \<and> ts ! (m + 1) < ts ! m \<and>
     (\<forall>k. i \<le> k \<and> k < m \<longrightarrow> step_ok ts s k) \<and> a = ts ! m \<and> b = ts ! (m + 1) \<and> n = m + 1"
proof (induction i ts s rule: check_loop.induct)
  case (1 i ts s)
  consider (e) "\<not> i < length ts" | (o) "i + 1 < length ts" "ts ! (i + 1) < ts ! i"
    | (b) "i < length ts" "\<not> (i + 1 < length ts \<and> ts ! (i + 1) < ts ! i)" "ts ! i < s"
    | (n) "i < length ts" "\<not> (i + 1 < length ts \<and> ts ! (i + 1) < ts ! i)" "\<not> ts ! i < s"
    by linarith
  then show ?case
  proof cases
    case e
    then show ?thesis by (auto simp: check_loop_end)
  next
    case o
    then have bad: "\<not> step_ok ts s i" by (auto simp: step_ok_def)
    show ?thesis
    proof
      assume "check_loop i ts s = Some (NonMonotonicTimestamps a b m n)"
      then show "i \<le> m \<and> m + 1 < length ts \<and> ts ! (m + 1) < ts ! m \<and>
        (\<forall>k. i \<le> k \<and> k < m \<longrightarrow> step_ok ts s k) \<and> a = ts ! m \<and> b = ts ! (m + 1) \<and> n = m + 1"
        using o by (auto simp: check_loop_order)
    next
      assume r: "i \<le> m \<and> m + 1 < length ts \<and> ts ! (m + 1) < ts ! m \<and>
        (\<forall>k. i \<le> k \<and> k < m \<longrightarrow> step_ok ts s k) \<and> a = ts ! m \<and> b = ts ! (m + 1) \<and> n = m + 1"
      then have "m = i" using bad by (metis le_neq_implies_less order_refl)
      then show "check_loop i ts s = Some (NonMonotonicTimestamps a b m n)"
        using r o by (simp add: check_loop_order)
    qed
  next
    case b
    then have bad: "\<not> step_ok ts s i" by (auto simp: step_ok_def)
    show ?thesis
    proof
      assume "check_loop i ts s = Some (NonMonotonicTimestamps a b m n)"
      then show "i \<le> m \<and> m + 1 < length ts \<and> ts ! (m + 1) < ts ! m \<and>
        (\<forall>k. i \<le> k \<and> k < m \<longrightarrow> step_ok ts s k) \<and> a = ts ! m \<and> b = ts ! (m + 1) \<and> n = m + 1"
        using b by (simp add: check_loop_early)
    next
      assume r: "i \<le> m \<and> m + 1 < length ts \<and> ts ! (m + 1) < ts ! m \<and>
        (\<forall>k. i \<le> k \<and> k < m \<longrightarrow> step_ok ts s k) \<and> a = ts ! m \<and> b = ts ! (m + 1) \<and> n = m + 1"
      then have "m = i" using bad by (metis le_neq_implies_less order_refl)
      then show "check_loop i ts s = Some (NonMonotonicTimestamps a b m n)"
        using r b by simp
    qed
  next
    case n
    then have ok: "step_ok ts s i" by (auto simp: step_ok_def)
    have c: "\<not> (i < length ts - 1 \<and> \<not> ts ! i \<le> ts ! (i + 1))"
      using n by (simp add: less_diff_conv not_le)
    have IH: "check_loop (i + 1) ts s = Some (NonMonotonicTimestamps a b m n) \<longleftrightarrow>
       i + 1 \<le> m \<and> m + 1 < length ts \<and> ts ! (m + 1) < ts ! m \<and>
       (\<forall>k. i + 1 \<le> k \<and> k < m \<longrightarrow> step_ok ts s k) \<and> a = ts ! m \<and> b = ts ! (m + 1) \<and> n = m + 1"
      by (rule "1.IH" [OF n(1) c n(3)])
    have q: "(\<forall>k. i \<le> k \<and> k < m \<longrightarrow> step_ok ts s k) \<longleftrightarrow>
          (\<forall>k. i + 1 \<le> k \<and> k < m \<longrightarrow> step_ok ts s k)"
      using ok by (metis Suc_eq_plus1 Suc_leI add_leD1 le_neq_implies_less)
    have m: "m + 1 < length ts \<and> ts ! (m + 1) < ts ! m \<Longrightarrow> i \<le> m \<longleftrightarrow> i + 1 \<le> m"
      using n by (metis Suc_eq_plus1 Suc_leI add_leD1 le_neq_implies_less)
    show ?thesis unfolding check_loop_next [OF n] IH q using m by blast
  qed
qed


section \<open>Errors of the later stages\<close>

lemma apply_transform_error:
  "apply_transform tr xs = Inl e \<Longrightarrow> e = UnboundLocal ''transform''"
  by (auto simp: apply_transform_def split: if_splits option.splits)

lemma setup_figure_error:
  "setup_figure self tr xl tb w = (Inl e, w') \<Longrightarrow> e = UnboundLocal ''transform''"
  by (auto simp: setup_figure_def Let_def split: if_splits sum.splits prod.splits
           dest: apply_transform_error)

lemma select_method_error: "select_method m = Inl e \<Longrightarrow> e = InvalidMethod"
  by (auto simp: select_method_def split: if_splits)

lemma select_method_auc_error:
  "select_method m = Inr (ds, stp, af) \<Longrightarrow> af X Y = Inl e \<Longrightarrow> e = AucValueError"
  by (auto simp: select_method_def auc_def split: if_splits)

lemma draw_curve_error:
  "draw_curve self f X Y ds stp alc w = (Inl e, self', w') \<Longrightarrow> e = DuplicateKeyword ''drawstyle''"
  by (auto simp: draw_curve_def Let_def split: if_splits)

lemma plot_learning_curve_invalid:
  "check_conditions ts sc st = Some e \<Longrightarrow>
   plot_learning_curve self w ts sc st tb = (Inl e, self, w)"
  by (simp add: plot_learning_curve_def)

lemma plot_learning_curve_later_error:
  assumes "check_conditions ts sc st = None"
      and "fst (plot_learning_curve self w ts sc st tb) = Inl e"
  shows "later_error e"
  using assms
  by (auto simp: plot_learning_curve_def Let_def later_error_def
           split: prod.splits sum.splits option.splits
           dest: apply_transform_error setup_figure_error select_method_error
                 select_method_auc_error draw_curve_error)


text \<open>
  C6 (as the code has it): for sequences of equal length, \<^verbatim>\<open>plot_learning_curve\<close>
  raises the order error exactly when some adjacent pair decreases and no index before the
  first such pair fails either test, that is, no earlier timestamp precedes the start time.
  The error carries the two values and their indices, and the plotter and the chart are then
  untouched: the check runs on the sequences as given, before truncation and transform.
\<close>

theorem nonmonotonic_raised_iff:
  assumes "length timestamps = length scores"
  shows "(fst (plot_learning_curve self w timestamps scores start_time time_budget)
            = Inl (NonMonotonicTimestamps a b m n)
          \<longleftrightarrow> m + 1 < length timestamps \<and> timestamps ! (m + 1) < timestamps ! m \<and>
              (\<forall>k<m. timestamps ! k \<le> timestamps ! (k + 1) \<and> start_time \<le> timestamps ! k) \<and>
              a = timestamps ! m \<and> b = timestamps ! (m + 1) \<and> n = m + 1)
         \<and> (fst (plot_learning_curve self w timestamps scores start_time time_budget)
               = Inl (NonMonotonicTimestamps a b m n)
             \<longrightarrow> snd (plot_learning_curve self w timestamps scores start_time time_budget)
                   = (self, w))"
proof -
  let ?r = "plot_learning_curve self w timestamps scores start_time time_budget"
  let ?e = "NonMonotonicTimestamps a b m n"
  have cc: "check_conditions timestamps scores start_time = check_loop 0 timestamps start_time"
    using assms by (simp add: check_conditions_def)
  have raised: "fst ?r = Inl ?e \<longleftrightarrow> check_loop 0 timestamps start_time = Some ?e"
  proof (cases "check_loop 0 timestamps start_time")
    case None
    then have "fst ?r = Inl ?e \<Longrightarrow> later_error ?e"
      using plot_learning_curve_later_error cc by metis
    then show ?thesis using None by (auto simp: later_error_def)
  next
    case (Some e)
    then show ?thesis using plot_learning_curve_invalid [of timestamps scores start_time e] cc
      by simp
  qed
  have unchanged: "snd ?r = (self, w)" if "check_loop 0 timestamps start_time = Some ?e"
    using that plot_learning_curve_invalid [of timestamps scores start_time ?e] cc by simp
  have pre: "(\<forall>k. 0 \<le> k \<and> k < m \<longrightarrow> step_ok timestamps start_time k) \<longleftrightarrow>
             (\<forall>k<m. timestamps ! k \<le> timestamps ! (k + 1) \<and> start_time \<le> timestamps ! k)"
    if "m + 1 < length timestamps"
    using that by (auto simp: step_ok_def not_less)
  show ?thesis
    unfolding raised using unchanged pre
    by (auto simp: check_loop_NonMonotonic_iff)
qed

theorem nonmonotonic_raised_iff_witness:
  "fst (plot_learning_curve (fst (default_plotter ''step'')) (snd (default_plotter ''step''))
          [0, 5, 3] [0, 1 / 10, 1 / 5] 0 7200) = Inl (NonMonotonicTimestamps 5 3 1 2)
   \<and> snd (plot_learning_curve (fst (default_plotter ''step'')) (snd (default_plotter ''step''))
          [0, 5, 3] [0, 1 / 10, 1 / 5] 0 7200)
       = (fst (default_plotter ''step''), snd (default_plotter ''step''))"
  using nonmonotonic_raised_iff [where timestamps = "[0, 5, 3]" and scores = "[0, 1 / 10, 1 / 5]"
          and m = 1 and start_time = 0 and a = 5 and b = 3 and n = 2
          and self = "fst (default_plotter ''step'')" and w = "snd (default_plotter ''step'')"
          and time_budget = 7200]
  by simp

text \<open>
  C6 as stated fails: in \<open>[-1, 5, 3]\<close> with start time 0 the pair at indices (1, 2)
  decreases, but index 0 is reported first, as a timestamp before the start.
\<close>

theorem nonmonotonic_iff_counterexample:
  "[- 1, 5, 3 :: real] ! 2 < [- 1, 5, 3] ! 1 \<and>
   fst (plot_learning_curve (fst (default_plotter ''step'')) (snd (default_plotter ''step''))
          [- 1, 5, 3] [0, 0, 0] 0 7200) = Inl (TimestampBeforeStart (- 1) 0 0)"
  by (simp add: plot_learning_curve_invalid check_conditions_def check_loop.simps)

section \<open>Truncation\<close>

lemma check_conditions_NoneD:
  assumes "check_conditions ts sc st = None"
  shows "length ts = length sc" and "sorted ts" and "\<forall>t\<in>set ts. st \<le> t"
proof -
  show len: "length ts = length sc"
    using assms by (auto simp: check_conditions_def Let_def split: if_splits)
  then have "check_loop 0 ts st = None"
    using assms by (simp add: check_conditions_def)
  then have ok: "\<And>k. k < length ts \<Longrightarrow> step_ok ts st k"
    by (simp add: check_loop_None_iff)
  show "sorted ts"
    unfolding sorted_iff_nth_Suc
  proof (intro allI impI)
    fix i assume "Suc i < length ts"
    then show "ts ! i \<le> ts ! Suc i" using ok [of i] by (auto simp: step_ok_def)
  qed
  show "\<forall>t\<in>set ts. st \<le> t"
    using ok by (auto simp: step_ok_def in_set_conv_nth not_less)
qed









section \<open>The figure\<close>

lemma ticks_of_nonempty: "map real_of_int (ticks_of tb) \<noteq> []"
  by (simp add: ticks_of_def)

lemmas creates_figure_cleared = creates_figure_def

lemma setup_figure_skipped:
  "\<not> creates_figure self w \<Longrightarrow> setup_figure self tr xl tb w = (Inr None, cleared self w)"
  unfolding setup_figure_def cleared_def [symmetric] Let_def
  by (simp add: creates_figure_def)

lemma setup_figure_created:
  assumes "creates_figure self w"
  shows "setup_figure self (Some g) xl tb w =
           (Inr (Some (length (figures (cleared self w)))),
            (cleared self w)\<lparr>figures := figures (cleared self w) @ [[main_axes self xl, twin_axes g tb]],
                              gcf := Some (length (figures (cleared self w)))\<rparr>)"
proof -
  have c: "(case fig self of None \<Rightarrow> True | Some sf \<Rightarrow> length (fig_axes (cleared self w) sf) = 0)"
    using assms by (simp add: creates_figure_cleared)
  have a: "apply_transform (Some g) (map real_of_int (ticks_of tb))
             = Inr (map g (map real_of_int (ticks_of tb)))"
    using ticks_of_nonempty [of tb] by (simp add: apply_transform_def)
  show ?thesis
    unfolding setup_figure_def cleared_def [symmetric] ticks_of_def [symmetric] Let_def
    using c a
    by (simp add: figure_def add_subplot_def draw_def fig_axes_def main_axes_def twin_axes_def)
qed

lemma setup_figure_unbound:
  assumes "creates_figure self w"
  shows "setup_figure self None xl tb w =
           (Inl (UnboundLocal ''transform''),
            (cleared self w)\<lparr>figures := figures (cleared self w) @ [[main_axes self xl, []]],
                              gcf := Some (length (figures (cleared self w)))\<rparr>)"
proof -
  have c: "(case fig self of None \<Rightarrow> True | Some sf \<Rightarrow> length (fig_axes (cleared self w) sf) = 0)"
    using assms by (simp add: creates_figure_cleared)
  have a: "apply_transform None (map real_of_int (ticks_of tb)) = Inl (UnboundLocal ''transform'')"
    using ticks_of_nonempty [of tb] by (simp add: apply_transform_def)
  show ?thesis
    unfolding setup_figure_def cleared_def [symmetric] ticks_of_def [symmetric] Let_def
    using c a
    by (simp add: figure_def add_subplot_def draw_def fig_axes_def main_axes_def)
qed


section \<open>Drawing the curve\<close>

lemma upd_default:
  "(if a \<notin> dom k then k(a \<mapsto> d) else k) = k(a \<mapsto> (case k a of None \<Rightarrow> d | Some v \<Rightarrow> v))"
  by (auto simp: fun_eq_iff split: option.splits)

lemma kwargs_curve_eq:
  "kwargs_curve k l =
     (let k1 = (if ''marker'' \<notin> dom k then k(''marker'' \<mapsto> Str ''o'') else k);
          k2 = (if ''markersize'' \<notin> dom k1 then k1(''markersize'' \<mapsto> Num 3) else k1)
      in if ''label'' \<notin> dom k2 then k2(''label'' \<mapsto> Lab l) else k2)"
  unfolding Let_def upd_default kwargs_curve_def by simp

lemma kwargs_after_eq:
  "kwargs_after k =
     ((kwargs_curve k l)(''linestyle'' \<mapsto> Str ''--'', ''linewidth'' \<mapsto> Num 1,
                         ''marker'' \<mapsto> PyNone))(''label'' := None)"
  by (rule ext) (simp add: kwargs_curve_def kwargs_after_def)

lemma dom_kwargs_curve:
  "dom (kwargs_curve k l) = dom k \<union> {''marker'', ''markersize'', ''label''}"
  unfolding kwargs_curve_def by (simp add: insert_commute)

lemma draw_curve_alt:
  "draw_curve self f X Y drawstyle step alc w =
     (if ''drawstyle'' \<in> dom (kwargs self)
      then (Inl (DuplicateKeyword ''drawstyle''),
            self\<lparr>kwargs := kwargs_curve (kwargs self) (legend_of self alc)\<rparr>, w)
      else
        (let w1 = draw f 0 (Plot (butlast X) (butlast Y) (Some drawstyle)
                              (kwargs_curve (kwargs self) (legend_of self alc))) w;
             w2 = (if fill_area self
                   then draw f 0 (FillBetween X Y (area_color self) step) w1 else w1);
             w3 = (if show_final_score self
                   then draw f 0 (Text (last X) (last Y) (last Y)) w2 else w2);
             w4 = draw f 0 (Plot (drop (length X - 2) X) (drop (length Y - 2) Y) None
                              (kwargs_after (kwargs self))) w3;
             w5 = draw f 0 Legend w4
         in (Inr (), self\<lparr>kwargs := kwargs_after (kwargs self)\<rparr>, w5)))"
proof -
  have d: "''drawstyle'' \<in> dom (kwargs_curve (kwargs self) (legend_of self alc))
           \<longleftrightarrow> ''drawstyle'' \<in> dom (kwargs self)"
    by (simp add: dom_kwargs_curve)
  have "draw_curve self f X Y drawstyle step alc w =
     (let k3 = kwargs_curve (kwargs self) (legend_of self alc) in
      if ''drawstyle'' \<in> dom k3
      then (Inl (DuplicateKeyword ''drawstyle''), self\<lparr>kwargs := k3\<rparr>, w)
      else
        (let w1 = draw f 0 (Plot (butlast X) (butlast Y) (Some drawstyle) k3) w;
             w2 = (if fill_area self
                   then draw f 0 (FillBetween X Y (area_color self) step) w1 else w1);
             w3 = (if show_final_score self
                   then draw f 0 (Text (last X) (last Y) (last Y)) w2 else w2);
             k7 = (k3(''linestyle'' \<mapsto> Str ''--'', ''linewidth'' \<mapsto> Num 1,
                      ''marker'' \<mapsto> PyNone))(''label'' := None);
             w4 = draw f 0 (Plot (drop (length X - 2) X) (drop (length Y - 2) Y) None k7) w3;
             w5 = draw f 0 Legend w4
         in (Inr (), self\<lparr>kwargs := k7\<rparr>, w5)))"
    unfolding draw_curve_def legend_of_def kwargs_curve_eq by (simp only: Let_def)
  then show ?thesis
    by (simp only: Let_def d kwargs_after_eq [of "kwargs self" "legend_of self alc"])
qed

lemma draw_curve_drawn:
  assumes "''drawstyle'' \<notin> dom (kwargs self)"
      and "figures w = fs @ [[a0, a1]]"
  shows "draw_curve self (length fs) X Y ds stp alc w =
           (Inr (), self\<lparr>kwargs := kwargs_after (kwargs self)\<rparr>,
            w\<lparr>figures := fs @ [[a0 @ curve_artists self X Y ds stp alc, a1]]\<rparr>)"
proof -
  have dr: "\<And>art a w'. figures w' = fs @ [[a, a1]] \<Longrightarrow>
              draw (length fs) 0 art w' = w'\<lparr>figures := fs @ [[a @ [art], a1]]\<rparr>"
    by (simp add: draw_def fig_axes_def)
  show ?thesis
    using assms by (simp add: draw_curve_alt Let_def dr curve_artists_def)
qed

section \<open>The whole call\<close>

lemma truncate_eq:
  assumes "length ts = length sc"
  shows "truncate ts sc st tb w
           = (retained ts st tb, take (length (retained ts st tb)) sc, logged ts st tb w)"
  using assms by (auto simp: truncate_def retained_def logged_def Let_def)

lemma logged_frame:
  "figures (logged ts st tb w) = figures w \<and> gcf (logged ts st tb w) = gcf w"
  by (simp add: logged_def)

lemma cleared_frame:
  "figures w1 = figures w \<Longrightarrow> gcf w1 = gcf w \<Longrightarrow>
   figures (cleared self w1) = figures (cleared self w) \<and> gcf (cleared self w1) = gcf (cleared self w)"
  by (auto simp: cleared_def clf_def figure_def split: option.splits)

lemma creates_figure_frame:
  "figures w1 = figures w \<Longrightarrow> gcf w1 = gcf w \<Longrightarrow> creates_figure self w1 = creates_figure self w"
  using cleared_frame [of w1 w self]
  by (auto simp: creates_figure_def fig_axes_def split: option.splits)

lemma choose_transform_default:
  "transform self = None \<Longrightarrow>
   choose_transform self tb = (Some (\<lambda>t. transform_time t tb 60), FormulaLabel (py_int tb) 60)"
  by (simp add: choose_transform_def py_int_def)

lemma choose_transform_custom:
  "transform self \<noteq> None \<Longrightarrow> choose_transform self tb = (None, GenericLabel)"
  by (simp add: choose_transform_def)

lemma apply_transform_Some: "apply_transform (Some g) xs = Inr (map g xs)"
  by (simp add: apply_transform_def)

lemma apply_transform_None:
  "apply_transform None xs = (if xs = [] then Inr [] else Inl (UnboundLocal ''transform''))"
  by (simp add: apply_transform_def)

text \<open>With a custom transform the call never returns a value.\<close>

lemma custom_transform_fails:
  assumes "transform self \<noteq> None"
  shows "\<exists>e. fst (plot_learning_curve self w ts sc st tb) = Inl e"
proof (cases "check_conditions ts sc st")
  case (Some e)
  then show ?thesis by (simp add: plot_learning_curve_invalid)
next
  case None
  obtain ts' sc' w1 where t: "truncate ts sc st tb w = (ts', sc', w1)"
    by (metis prod_cases3)
  show ?thesis
  proof (cases "creates_figure self w1")
    case True
    show ?thesis
      using None t assms
      by (simp add: plot_learning_curve_def choose_transform_custom apply_transform_None
            setup_figure_unbound [OF True])
  next
    case False
    show ?thesis
      using None t assms
      by (simp add: plot_learning_curve_def choose_transform_custom apply_transform_None
            setup_figure_skipped [OF False])
  qed
qed

lemma creates_figure_logged:
  "creates_figure self (logged ts st tb w) = creates_figure self w"
  by (rule creates_figure_frame) (simp_all add: logged_frame)

lemma figure_made_logged:
  "figures (figure_made self tb' (logged ts st tb w)) = figures (figure_made self tb' w)
   \<and> gcf (figure_made self tb' (logged ts st tb w)) = gcf (figure_made self tb' w)
   \<and> new_fig self (logged ts st tb w) = new_fig self w"
proof -
  have "figures (cleared self (logged ts st tb w)) = figures (cleared self w)"
    by (rule cleared_frame [THEN conjunct1]) (simp_all add: logged_frame)
  then show ?thesis by (simp add: figure_made_def new_fig_def)
qed

lemma curve_built:
  "(0 # map (\<lambda>t. transform_time t tb 60) (map (\<lambda>t. t - st) (retained ts st tb))) @ [1]
     = curve_X ts st tb"
  "(0 # take (length (retained ts st tb)) sc) @ [last (0 # take (length (retained ts st tb)) sc)]
     = curve_Y ts sc st tb"
  by (simp_all add: curve_X_def curve_Y_def Let_def comp_def)


lemma plot_learning_curve_valid:
  assumes "check_conditions ts sc st = None"
      and "transform self = None"
      and "creates_figure self w"
  shows "plot_learning_curve self w ts sc st tb =
           (case select_method (alc_method self) of
              Inl e \<Rightarrow> (Inl e, self, figure_made self tb (logged ts st tb w))
            | Inr (drawstyle, step, auc_func) \<Rightarrow>
               (case auc_func (curve_X ts st tb) (curve_Y ts sc st tb) of
                  Inl e \<Rightarrow> (Inl e, self, figure_made self tb (logged ts st tb w))
                | Inr alc \<Rightarrow>
                   (case draw_curve self (new_fig self w) (curve_X ts st tb) (curve_Y ts sc st tb)
                           drawstyle step alc (figure_made self tb (logged ts st tb w)) of
                      (Inl e, self', w3) \<Rightarrow> (Inl e, self', w3)
                    | (Inr u, self', w3) \<Rightarrow> (Inr (alc, new_fig self w), self', w3))))"
proof -
  let ?L = "logged ts st tb w"
  have len: "length ts = length sc"
    using assms(1) by (rule check_conditions_NoneD)
  have c: "creates_figure self ?L"
    using assms(3) by (simp only: creates_figure_logged)
  have n: "new_fig self ?L = new_fig self w"
    by (simp only: figure_made_logged)
  have "setup_figure self (Some (\<lambda>t. transform_time t tb 60)) (FormulaLabel (py_int tb) 60) tb ?L
           = (Inr (Some (new_fig self ?L)), figure_made self tb ?L)"
    by (simp only: setup_figure_created [OF c] figure_made_def new_fig_def)
  then have s: "setup_figure self (Some (\<lambda>t. transform_time t tb 60)) (FormulaLabel (py_int tb) 60)
                  tb ?L = (Inr (Some (new_fig self w)), figure_made self tb ?L)"
    by (simp only: n)
  show ?thesis
    unfolding plot_learning_curve_def
    by (simp only: assms(1) truncate_eq [OF len] choose_transform_default [OF assms(2)]
          apply_transform_Some s Let_def curve_built option.case prod.case sum.case)
qed


lemma plot_learning_curve_no_figure:
  assumes "check_conditions ts sc st = None"
      and "\<not> creates_figure self w"
  shows "fst (plot_learning_curve self w ts sc st tb) = Inl (UnboundLocal ''transform'')
         \<or> fst (plot_learning_curve self w ts sc st tb) = Inl (UnboundLocal ''fig'')"
proof -
  have len: "length ts = length sc"
    using assms(1) by (rule check_conditions_NoneD)
  have c: "\<not> creates_figure self (logged ts st tb w)"
    using assms(2) by (simp add: creates_figure_logged)
  obtain tr xl where ch: "choose_transform self tb = (tr, xl)"
    by (cases "choose_transform self tb") auto
  show ?thesis
  proof (cases "apply_transform tr (map (\<lambda>t. t - st) (retained ts st tb))")
    case (Inl e)
    then have e: "e = UnboundLocal ''transform''" by (rule apply_transform_error)
    have "plot_learning_curve self w ts sc st tb = (Inl e, self, logged ts st tb w)"
      unfolding plot_learning_curve_def
      by (simp only: assms(1) truncate_eq [OF len] ch Inl Let_def option.case prod.case sum.case)
    then show ?thesis using e by simp
  next
    case (Inr X0)
    have "plot_learning_curve self w ts sc st tb
            = (Inl (UnboundLocal ''fig''), self, cleared self (logged ts st tb w))"
      unfolding plot_learning_curve_def
      by (simp only: assms(1) truncate_eq [OF len] ch Inr Let_def setup_figure_skipped [OF c]
            option.case prod.case sum.case)
    then show ?thesis by simp
  qed
qed

lemma figures_figure_made:
  "figures (figure_made self tb' (logged ts st tb w)) =
     figures (cleared self w) @
       [[main_axes self (FormulaLabel (py_int tb') 60),
         twin_axes (\<lambda>t. transform_time t tb' 60) tb']]"
proof -
  have "figures (cleared self (logged ts st tb w)) = figures (cleared self w)"
    by (rule cleared_frame [THEN conjunct1]) (simp_all add: logged_frame)
  then show ?thesis by (simp add: figure_made_def)
qed

lemma plot_learning_curve_returns:
  assumes "check_conditions ts sc st = None"
      and "transform self = None"
      and "creates_figure self w"
      and "select_method (alc_method self) = Inr (ds, stp, af)"
      and "af (curve_X ts st tb) (curve_Y ts sc st tb) = Inr alc"
      and "''drawstyle'' \<notin> dom (kwargs self)"
  shows "plot_learning_curve self w ts sc st tb =
           (Inr (alc, new_fig self w), self\<lparr>kwargs := kwargs_after (kwargs self)\<rparr>,
            curve_drawn self w ts sc st tb ds stp alc)"
proof -
  have d: "draw_curve self (new_fig self w) (curve_X ts st tb) (curve_Y ts sc st tb) ds stp alc
             (figure_made self tb (logged ts st tb w))
           = (Inr (), self\<lparr>kwargs := kwargs_after (kwargs self)\<rparr>,
              curve_drawn self w ts sc st tb ds stp alc)"
    unfolding new_fig_def curve_drawn_def
    by (rule draw_curve_drawn [OF assms(6) figures_figure_made])
  show ?thesis
    by (simp only: plot_learning_curve_valid [OF assms(1-3)] assms(4,5) d sum.case prod.case)
qed

lemma draw_curve_duplicate:
  "''drawstyle'' \<in> dom (kwargs self) \<Longrightarrow>
   draw_curve self f X Y ds stp alc w =
     (Inl (DuplicateKeyword ''drawstyle''),
      self\<lparr>kwargs := kwargs_curve (kwargs self) (legend_of self alc)\<rparr>, w)"
  by (simp only: draw_curve_alt if_True)

lemma draw_curve_plotter:
  "draw_curve self f X Y ds stp alc w = (r, self', w') \<Longrightarrow> self' = self\<lparr>kwargs := kwargs self'\<rparr>"
  by (auto simp: draw_curve_alt Let_def split: if_splits)

lemma plot_learning_curve_plotter:
  "fst (snd (plot_learning_curve self w ts sc st tb))
     = self\<lparr>kwargs := kwargs (fst (snd (plot_learning_curve self w ts sc st tb)))\<rparr>"
  by (auto simp: plot_learning_curve_def Let_def
           split: prod.splits sum.splits option.splits dest: draw_curve_plotter)

lemma plot_learning_curve_InrD:
  assumes "fst (plot_learning_curve self w ts sc st tb) = Inr (alc, f)"
  shows "check_conditions ts sc st = None" and "transform self = None"
    and "creates_figure self w" and "''drawstyle'' \<notin> dom (kwargs self)"
    and "\<exists>ds stp af. select_method (alc_method self) = Inr (ds, stp, af) \<and>
           af (curve_X ts st tb) (curve_Y ts sc st tb) = Inr alc"
    and "f = new_fig self w"
proof -
  show v: "check_conditions ts sc st = None"
    using assms by (cases "check_conditions ts sc st") (auto simp: plot_learning_curve_invalid)
  show t: "transform self = None"
  proof (rule ccontr)
    assume "transform self \<noteq> None"
    then obtain e where "fst (plot_learning_curve self w ts sc st tb) = Inl e"
      using custom_transform_fails by blast
    then show False using assms by simp
  qed
  show c: "creates_figure self w"
    using assms plot_learning_curve_no_figure [OF v, of self w tb] by auto
  note nf = plot_learning_curve_valid [OF v t c, of tb]
  obtain ds stp af where m: "select_method (alc_method self) = Inr (ds, stp, af)"
    using assms nf by (cases "select_method (alc_method self)") auto
  obtain a where a: "af (curve_X ts st tb) (curve_Y ts sc st tb) = Inr a"
    using assms nf m by (cases "af (curve_X ts st tb) (curve_Y ts sc st tb)") auto
  show k: "''drawstyle'' \<notin> dom (kwargs self)"
  proof
    assume "''drawstyle'' \<in> dom (kwargs self)"
    then have "fst (plot_learning_curve self w ts sc st tb) = Inl (DuplicateKeyword ''drawstyle'')"
      by (simp only: nf m a draw_curve_duplicate sum.case prod.case fst_conv)
    then show False using assms by simp
  qed
  have "a = alc \<and> f = new_fig self w"
    using assms plot_learning_curve_returns [OF v t c m a k] by simp
  then show "\<exists>ds stp af. select_method (alc_method self) = Inr (ds, stp, af) \<and>
           af (curve_X ts st tb) (curve_Y ts sc st tb) = Inr alc"
    and "f = new_fig self w"
    using m a by auto
qed

section \<open>The constructed plotters\<close>

lemma PlotAlc_eq:
  "PlotAlc m tr tn ac fa mn cf sfs st kw empty_world =
     (\<lparr>alc_method = m, transform = tr, task_name = tn, area_color = ac, fill_area = fa,
       model_name = mn, clear_figure = cf, fig = Some 0, show_final_score = sfs,
       show_title = st, kwargs = kw, cur_frame = 0, ax = Some (0, 0)\<rparr>,
      \<lparr>figures = [[[]]], gcf = Some 0, warnings = []\<rparr>)"
  by (simp add: PlotAlc_def init_plot_def subplots_def figure_def add_subplot_def fig_axes_def
        empty_world_def)

lemma PlotAlc_creates_figure:
  "creates_figure (fst (PlotAlc m tr tn ac fa mn True sfs st kw empty_world))
     (snd (PlotAlc m tr tn ac fa mn True sfs st kw empty_world))"
  by (simp add: PlotAlc_eq creates_figure_def cleared_def clf_def fig_axes_def)

section \<open>The custom transform\<close>

lemma plot_learning_curve_custom:
  assumes "check_conditions ts sc st = None"
      and "transform self \<noteq> None"
      and "retained ts st tb \<noteq> []"
  shows "plot_learning_curve self w ts sc st tb
           = (Inl (UnboundLocal ''transform''), self, logged ts st tb w)"
proof -
  have len: "length ts = length sc"
    using assms(1) by (rule check_conditions_NoneD)
  have a: "apply_transform None (map (\<lambda>t. t - st) (retained ts st tb))
             = Inl (UnboundLocal ''transform'')"
    using assms(3) by (simp add: apply_transform_None)
  show ?thesis
    unfolding plot_learning_curve_def
    by (simp only: assms(1) truncate_eq [OF len] choose_transform_custom [OF assms(2)] a Let_def
          option.case prod.case sum.case)
qed

text \<open>
  C7 (the code departs from the claim): a plotter built with the custom transform
  \<open>t \<mapsto> t / 7200\<close>, called on one observation, does not apply the supplied function. The
  local name \<^verbatim>\<open>transform\<close> was never bound, and the call ends in Python's error for
  that.
\<close>

theorem custom_transform_unbound:
  "fst (plot_learning_curve (fst (custom_plotter (\<lambda>t. t / 7200)))
          (snd (custom_plotter (\<lambda>t. t / 7200))) [10] [1 / 2] 0 7200)
     = Inl (UnboundLocal ''transform'')"
proof -
  have v: "check_conditions [10] [1 / 2] 0 = None"
    by (simp add: check_conditions_def check_loop.simps)
  have t: "transform (fst (custom_plotter (\<lambda>t. t / 7200))) \<noteq> None"
    by (simp add: custom_plotter_def PlotAlc_eq)
  have r: "retained [10] 0 7200 \<noteq> []"
    by (simp add: retained_def)
  show ?thesis
    by (simp only: plot_learning_curve_custom [OF v t r] fst_conv)
qed

section \<open>The empty trace on the default plotter\<close>

lemma check_conditions_empty: "check_conditions [] [] st = None"
  by (simp add: check_conditions_def check_loop.simps)

lemma curve_empty: "curve_X [] st tb = [0, 1]" "curve_Y [] [] st tb = [0, 0]"
  by (simp_all add: curve_X_def curve_Y_def retained_def)

lemma select_method_step:
  "select_method ''step'' = Inr (''steps-post'', Some ''post'', \<lambda>X Y. Inr (auc_step X Y))"
  by (simp add: select_method_def)

lemma select_method_trapez: "select_method ''trapez'' = Inr (''default'', None, auc)"
  by (simp add: select_method_def)

lemma default_plotter_facts:
  "alc_method (fst (default_plotter m)) = m"
  "transform (fst (default_plotter m)) = None"
  "kwargs (fst (default_plotter m)) = Map.empty"
  "cur_frame (fst (default_plotter m)) = 0"
  "creates_figure (fst (default_plotter m)) (snd (default_plotter m))"
  "new_fig (fst (default_plotter m)) (snd (default_plotter m)) = 1"
  unfolding default_plotter_def
  by (simp_all add: PlotAlc_creates_figure)
     (simp_all add: PlotAlc_eq new_fig_def cleared_def clf_def)

lemma default_step_empty:
  "plot_learning_curve (fst (default_plotter ''step'')) (snd (default_plotter ''step'')) [] [] 0 7200
     = (Inr (0, 1),
        (fst (default_plotter ''step''))\<lparr>kwargs := kwargs_after Map.empty\<rparr>,
        curve_drawn (fst (default_plotter ''step'')) (snd (default_plotter ''step'')) [] [] 0 7200
          ''steps-post'' (Some ''post'') 0)"
proof -
  let ?p = "fst (default_plotter ''step'')"
  have m: "select_method (alc_method ?p)
             = Inr (''steps-post'', Some ''post'', \<lambda>X Y. Inr (auc_step X Y))"
    by (simp only: default_plotter_facts select_method_step)
  have a: "(\<lambda>X Y. Inr (auc_step X Y)) (curve_X [] 0 7200) (curve_Y [] [] 0 7200)
             = (Inr 0 :: error + real)"
    by (simp add: curve_empty)
  have k: "''drawstyle'' \<notin> dom (kwargs ?p)"
    by (simp add: default_plotter_facts)
  show ?thesis
    using plot_learning_curve_returns [OF check_conditions_empty default_plotter_facts(2)
            default_plotter_facts(5) m a k]
    by (simp only: default_plotter_facts)
qed

section \<open>The plotter across calls\<close>

lemma plot_learning_curve_cur_frame:
  "cur_frame (fst (snd (plot_learning_curve self w ts sc st tb))) = cur_frame self"
  by (subst plot_learning_curve_plotter) simp

lemma run_calls_cur_frame: "cur_frame (fst (run_calls self w calls)) = cur_frame self"
proof (induction calls arbitrary: self w)
  case Nil
  then show ?case by simp
next
  case (Cons c calls)
  obtain ts sc st tb where c: "c = (ts, sc, st, tb)" by (cases c) auto
  obtain r self' w' where p: "plot_learning_curve self w ts sc st tb = (r, self', w')"
    by (cases "plot_learning_curve self w ts sc st tb") auto
  have "cur_frame self' = cur_frame self"
    using plot_learning_curve_cur_frame [of self w ts sc st tb] p by simp
  then show ?case using Cons.IH [of self' w'] c p by simp
qed

lemma PlotAlc_cur_frame: "cur_frame (fst (PlotAlc m tr tn ac fa mn cf sfs st kw w)) = 0"
  by (simp add: PlotAlc_def init_plot_def Let_def split: prod.splits)

text \<open>
  C9 (as the code has it): the frame counter is 0 after construction and no call of
  \<^verbatim>\<open>plot_learning_curve\<close> writes it, so it is still 0 after any sequence of calls,
  returning or failing.
\<close>

theorem frame_counter_stays_zero:
  "cur_frame (fst (run_calls (fst (PlotAlc m tr tn ac fa mn cf sfs st kw w))
                              (snd (PlotAlc m tr tn ac fa mn cf sfs st kw w)) calls)) = 0"
  by (simp only: run_calls_cur_frame PlotAlc_cur_frame)

theorem frame_counter_stays_zero_witness:
  "cur_frame (fst (run_calls (fst (default_plotter ''step'')) (snd (default_plotter ''step''))
                     [([], [], 0, 7200), ([0], [1], 0, 7200)])) = 0"
  unfolding default_plotter_def by (rule frame_counter_stays_zero)

text \<open>
  C9 as stated fails: the first call on a default plotter returns (with area 0 and the new
  figure), and the counter is 0 afterwards, not 1.
\<close>

theorem frame_counter_counterexample:
  "fst (plot_learning_curve (fst (default_plotter ''step'')) (snd (default_plotter ''step''))
          [] [] 0 7200) = Inr (0, 1)
   \<and> cur_frame (fst (snd (plot_learning_curve (fst (default_plotter ''step''))
                              (snd (default_plotter ''step'')) [] [] 0 7200))) \<noteq> 1"
  by (simp add: default_step_empty default_plotter_facts)

section \<open>The configuration\<close>






section \<open>The method check\<close>










section \<open>Warnings\<close>






lemma truncate_warnings:
  "truncate ts sc st tb w = (ts', sc', w1) \<Longrightarrow> warnings w1 = warnings (logged ts st tb w)"
  by (auto simp: truncate_def logged_def retained_def Let_def split: if_splits)


lemma select_method_InrD:
  assumes "select_method m = Inr (ds, stp, af)"
  shows "(m = ''step'' \<and> ds = ''steps-post'' \<and> stp = Some ''post''
           \<and> af = (\<lambda>X Y. Inr (auc_step X Y)))
         \<or> (m = ''trapez'' \<and> ds = ''default'' \<and> stp = None \<and> af = auc)"
  using assms by (auto simp: select_method_def split: if_splits)


section \<open>The empty trace\<close>





section \<open>The canonical transform and the quadratures\<close>

lemma transform_time_bounds:
  assumes "0 < T"
  shows "transform_time 0 T 60 = 0" and "transform_time T T 60 = 1"
    and "0 \<le> t \<Longrightarrow> 0 \<le> transform_time t T 60"
    and "0 \<le> t \<Longrightarrow> t \<le> T \<Longrightarrow> transform_time t T 60 \<le> 1"
    and "0 \<le> t \<Longrightarrow> t \<le> t' \<Longrightarrow> transform_time t T 60 \<le> transform_time t' T 60"
proof -
  have d: "0 < ln (1 + T / 60)" using assms by (simp add: ln_gt_zero)
  show "transform_time 0 T 60 = 0" by (simp add: transform_time_def)
  show "transform_time T T 60 = 1" using d by (simp add: transform_time_def)
  show "0 \<le> transform_time t T 60" if "0 \<le> t"
  proof -
    have "0 \<le> ln (1 + t / 60)" using that by (simp add: ln_ge_zero)
    then show ?thesis using d by (simp add: transform_time_def)
  qed
  show "transform_time t' T 60 \<ge> transform_time t T 60" if "0 \<le> t" "t \<le> t'" for t t'
  proof -
    have "ln (1 + t / 60) \<le> ln (1 + t' / 60)" using that by simp
    then show ?thesis using d by (simp add: transform_time_def divide_right_mono)
  qed
  from this [of t T] show "transform_time t T 60 \<le> 1" if "0 \<le> t" "t \<le> T"
    using that d by (simp add: transform_time_def)
qed

lemma diff_sorted: "sorted xs \<Longrightarrow> \<not> list_ex (\<lambda>d. d < 0) (diff xs)"
  by (induction xs rule: diff.induct) auto

lemma auc_sorted:
  "sorted X \<Longrightarrow> length X = length Y \<Longrightarrow> 2 \<le> length X \<Longrightarrow> auc X Y = Inr (trapezoid X Y)"
  by (simp add: auc_def diff_sorted)

lemma diff_nonincreasing:
  "list_all (\<lambda>d. d \<le> 0) (diff xs) \<Longrightarrow> xs \<noteq> [] \<Longrightarrow> last xs \<le> hd xs"
  by (induction xs rule: diff.induct) auto

lemma auc_increasing:
  assumes "auc X Y = Inr alc" and "hd X < last X"
  shows "alc = trapezoid X Y"
proof -
  have "X \<noteq> []" using assms(1) by (auto simp: auc_def split: if_splits)
  then have "\<not> list_all (\<lambda>d. d \<le> 0) (diff X)"
    using diff_nonincreasing [of X] assms(2) by auto
  then show ?thesis using assms(1) by (auto simp: auc_def split: if_splits)
qed

lemma curve_ends:
  "hd (curve_X ts st tb) = 0" "last (curve_X ts st tb) = 1"
  "hd (curve_Y ts sc st tb) = 0"
  "last (curve_Y ts sc st tb) = last (butlast (curve_Y ts sc st tb))"
  by (simp_all add: curve_X_def curve_Y_def Let_def butlast_append)

lemma curve_lengths:
  assumes "length ts = length sc"
  shows "length (curve_X ts st tb) = length (curve_Y ts sc st tb)"
    and "2 \<le> length (curve_X ts st tb)"
proof -
  have "length (retained ts st tb) \<le> length sc"
    unfolding retained_def assms [symmetric] by (rule length_filter_le)
  then show "length (curve_X ts st tb) = length (curve_Y ts sc st tb)"
    by (simp add: curve_X_def curve_Y_def Let_def)
  show "2 \<le> length (curve_X ts st tb)"
    by (simp add: curve_X_def)
qed

section \<open>The derived curve\<close>

lemma fig_axes_curve_drawn:
  "fig_axes (curve_drawn self w ts sc st tb ds stp alc) (new_fig self w) ! 0
     = main_axes self (FormulaLabel (py_int tb) 60) @
       curve_artists self (curve_X ts st tb) (curve_Y ts sc st tb) ds stp alc"
  by (simp add: curve_drawn_def fig_axes_def new_fig_def)

lemma plot_learning_curve_InrE:
  assumes "fst (plot_learning_curve self w ts sc st tb) = Inr (alc, f)"
  obtains ds stp af where "select_method (alc_method self) = Inr (ds, stp, af)"
    and "af (curve_X ts st tb) (curve_Y ts sc st tb) = Inr alc"
    and "plot_learning_curve self w ts sc st tb
           = (Inr (alc, new_fig self w), self\<lparr>kwargs := kwargs_after (kwargs self)\<rparr>,
              curve_drawn self w ts sc st tb ds stp alc)"
proof -
  note d = plot_learning_curve_InrD [OF assms]
  obtain ds stp af where m: "select_method (alc_method self) = Inr (ds, stp, af)"
    and a: "af (curve_X ts st tb) (curve_Y ts sc st tb) = Inr alc"
    using d(5) by blast
  show thesis
    using that [OF m a plot_learning_curve_returns [OF d(1) d(2) d(3) m a d(4)]] .
qed

text \<open>
  C4: the curve in the spec's words, \<open>curve_X\<close> and \<open>curve_Y\<close>, starts at the origin, ends
  at \<open>X = 1\<close> and repeats its last ordinate. It is the curve of the code: whenever the call
  returns, the area returned is the selected quadrature of exactly this curve, the first
  artist drawn after the axes settings is this curve without its last point, and the shaded
  area, when enabled, is under the whole of it. With the step method the call does return
  when validation passes, the default transform is in use, a figure is created and the style
  dictionary has no \<^verbatim>\<open>drawstyle\<close>.
\<close>

theorem derived_curve:
  "hd (curve_X timestamps start_time time_budget) = 0
   \<and> hd (curve_Y timestamps scores start_time time_budget) = 0
   \<and> last (curve_X timestamps start_time time_budget) = 1
   \<and> last (curve_Y timestamps scores start_time time_budget)
       = last (butlast (curve_Y timestamps scores start_time time_budget))
   \<and> (\<forall>alc f. fst (plot_learning_curve self w timestamps scores start_time time_budget)
                 = Inr (alc, f) \<longrightarrow>
          (\<exists>drawstyle step auc_func.
              select_method (alc_method self) = Inr (drawstyle, step, auc_func)
            \<and> auc_func (curve_X timestamps start_time time_budget)
                  (curve_Y timestamps scores start_time time_budget) = Inr alc
            \<and> fig_axes (snd (snd (plot_learning_curve self w timestamps scores start_time
                                     time_budget))) f ! 0
                = main_axes self (FormulaLabel (py_int time_budget) 60) @
                  curve_artists self (curve_X timestamps start_time time_budget)
                    (curve_Y timestamps scores start_time time_budget) drawstyle step alc))
   \<and> (check_conditions timestamps scores start_time = None \<and> transform self = None
       \<and> creates_figure self w \<and> alc_method self = ''step''
       \<and> ''drawstyle'' \<notin> dom (kwargs self) \<longrightarrow>
         fst (plot_learning_curve self w timestamps scores start_time time_budget)
           = Inr (auc_step (curve_X timestamps start_time time_budget)
                    (curve_Y timestamps scores start_time time_budget), new_fig self w))"
proof -
  let ?r = "plot_learning_curve self w timestamps scores start_time time_budget"
  let ?X = "curve_X timestamps start_time time_budget"
  let ?Y = "curve_Y timestamps scores start_time time_budget"
  have code: "\<exists>drawstyle step auc_func.
              select_method (alc_method self) = Inr (drawstyle, step, auc_func)
            \<and> auc_func ?X ?Y = Inr alc
            \<and> fig_axes (snd (snd ?r)) f ! 0
                = main_axes self (FormulaLabel (py_int time_budget) 60) @
                  curve_artists self ?X ?Y drawstyle step alc"
    if r: "fst ?r = Inr (alc, f)" for alc f
  proof -
    obtain ds stp af where m: "select_method (alc_method self) = Inr (ds, stp, af)"
      and a: "af ?X ?Y = Inr alc"
      and e: "?r = (Inr (alc, new_fig self w), self\<lparr>kwargs := kwargs_after (kwargs self)\<rparr>,
                    curve_drawn self w timestamps scores start_time time_budget ds stp alc)"
      using r by (rule plot_learning_curve_InrE)
    have f: "f = new_fig self w" using r e by simp
    have "fig_axes (snd (snd ?r)) f ! 0
            = main_axes self (FormulaLabel (py_int time_budget) 60) @
              curve_artists self ?X ?Y ds stp alc"
      unfolding f by (simp only: e snd_conv fig_axes_curve_drawn)
    then show ?thesis using m a by blast
  qed
  have returns: "fst ?r = Inr (auc_step ?X ?Y, new_fig self w)"
    if v: "check_conditions timestamps scores start_time = None" and t: "transform self = None"
      and c: "creates_figure self w" and s: "alc_method self = ''step''"
      and k: "''drawstyle'' \<notin> dom (kwargs self)"
  proof -
    have sm: "select_method (alc_method self)
                = Inr (''steps-post'', Some ''post'', \<lambda>X Y. Inr (auc_step X Y))"
      by (simp only: s select_method_step)
    have a: "(\<lambda>X Y. Inr (auc_step X Y)) ?X ?Y = (Inr (auc_step ?X ?Y) :: error + real)"
      by simp
    show ?thesis
      by (simp only: plot_learning_curve_returns [OF v t c sm a k] fst_conv)
  qed
  show ?thesis
    using curve_ends code returns by blast
qed


lemma curve_one_at_start:
  "curve_X [0] 0 7200 = [0, 0, 1]" "curve_Y [0] [1] 0 7200 = [0, 1, 1]"
  by (simp_all add: curve_X_def curve_Y_def retained_def transform_time_def)

lemma check_conditions_one: "check_conditions [0] [1] 0 = None"
  by (simp add: check_conditions_def check_loop.simps)

theorem derived_curve_witness:
  "fst (plot_learning_curve (fst (default_plotter ''step'')) (snd (default_plotter ''step''))
          [0] [1] 0 7200) = Inr (1, 1)"
  using derived_curve [of "[0]" 0 7200 "[1]" "fst (default_plotter ''step'')"
          "snd (default_plotter ''step'')"]
  by (simp add: default_plotter_facts check_conditions_one curve_one_at_start)

section \<open>The area\<close>

lemma sorted_map_mono_on:
  "sorted xs \<Longrightarrow> (\<And>x y. x \<in> set xs \<Longrightarrow> y \<in> set xs \<Longrightarrow> x \<le> y \<Longrightarrow> g x \<le> g y) \<Longrightarrow>
   sorted (map g xs)"
  by (induction xs) auto

lemma curve_X_sorted:
  assumes "check_conditions ts sc st = None" and "0 < tb"
  shows "sorted (curve_X ts st tb)"
proof -
  note v = check_conditions_NoneD [OF assms(1)]
  let ?g = "\<lambda>t. transform_time (t - st) tb 60"
  have r: "sorted (retained ts st tb)"
    unfolding retained_def using v(2) by (rule sorted_wrt_filter)
  have bnd: "0 \<le> t - st \<and> t - st \<le> tb" if "t \<in> set (retained ts st tb)" for t
    using that v(3) by (auto simp: retained_def)
  have m: "sorted (map ?g (retained ts st tb))"
  proof (rule sorted_map_mono_on [OF r])
    fix x y assume "x \<in> set (retained ts st tb)" "y \<in> set (retained ts st tb)" "x \<le> y"
    then show "?g x \<le> ?g y"
      using transform_time_bounds(5) [OF assms(2), of "x - st" "y - st"] bnd [of x] by simp
  qed
  have lo: "0 \<le> ?g t" if "t \<in> set (retained ts st tb)" for t
    using transform_time_bounds(3) [OF assms(2), of "t - st"] bnd [OF that] by simp
  have hi: "?g t \<le> 1" if "t \<in> set (retained ts st tb)" for t
    using transform_time_bounds(4) [OF assms(2), of "t - st"] bnd [OF that] by simp
  show ?thesis
    unfolding curve_X_def using m lo hi by (auto simp: sorted_append)
qed

lemma default_step_one:
  "fst (plot_learning_curve (fst (default_plotter ''step'')) (snd (default_plotter ''step''))
          [0] [1] 0 7200) = Inr (1, 1)"
proof -
  let ?p = "fst (default_plotter ''step'')"
  have m: "select_method (alc_method ?p)
             = Inr (''steps-post'', Some ''post'', \<lambda>X Y. Inr (auc_step X Y))"
    by (simp only: default_plotter_facts select_method_step)
  have a: "(\<lambda>X Y. Inr (auc_step X Y)) (curve_X [0] 0 7200) (curve_Y [0] [1] 0 7200)
             = (Inr 1 :: error + real)"
    by (simp add: curve_one_at_start)
  have k: "''drawstyle'' \<notin> dom (kwargs ?p)"
    by (simp add: default_plotter_facts)
  show ?thesis
    using plot_learning_curve_returns [OF check_conditions_one default_plotter_facts(2)
            default_plotter_facts(5) m a k]
    by (simp only: default_plotter_facts fst_conv)
qed

text \<open>
  C1 (as the code has it): the area returned is the quadrature of the whole curve, the point
  appended at \<open>X = 1\<close> included: the step rule for \<^verbatim>\<open>step\<close>, the trapezoidal rule for
  \<^verbatim>\<open>trapez\<close>. The call returns it when validation passes, the default transform is in
  use, a figure is created and the style dictionary has no \<^verbatim>\<open>drawstyle\<close> (for
  \<^verbatim>\<open>trapez\<close> with a positive time budget, which keeps the abscissae in order).
\<close>

theorem area_over_whole_curve:
  "(\<forall>alc f. fst (plot_learning_curve self w timestamps scores start_time time_budget)
               = Inr (alc, f) \<longrightarrow>
        (alc_method self = ''step''
         \<and> alc = auc_step (curve_X timestamps start_time time_budget)
                   (curve_Y timestamps scores start_time time_budget))
      \<or> (alc_method self = ''trapez''
         \<and> alc = trapezoid (curve_X timestamps start_time time_budget)
                   (curve_Y timestamps scores start_time time_budget)))
   \<and> (check_conditions timestamps scores start_time = None \<and> transform self = None
       \<and> creates_figure self w \<and> ''drawstyle'' \<notin> dom (kwargs self)
       \<and> alc_method self = ''step'' \<longrightarrow>
         fst (plot_learning_curve self w timestamps scores start_time time_budget)
           = Inr (auc_step (curve_X timestamps start_time time_budget)
                    (curve_Y timestamps scores start_time time_budget), new_fig self w))
   \<and> (check_conditions timestamps scores start_time = None \<and> transform self = None
       \<and> creates_figure self w \<and> ''drawstyle'' \<notin> dom (kwargs self)
       \<and> alc_method self = ''trapez'' \<and> 0 < time_budget \<longrightarrow>
         fst (plot_learning_curve self w timestamps scores start_time time_budget)
           = Inr (trapezoid (curve_X timestamps start_time time_budget)
                    (curve_Y timestamps scores start_time time_budget), new_fig self w))"
proof -
  let ?r = "plot_learning_curve self w timestamps scores start_time time_budget"
  let ?X = "curve_X timestamps start_time time_budget"
  let ?Y = "curve_Y timestamps scores start_time time_budget"
  have area: "(alc_method self = ''step'' \<and> alc = auc_step ?X ?Y)
              \<or> (alc_method self = ''trapez'' \<and> alc = trapezoid ?X ?Y)"
    if r: "fst ?r = Inr (alc, f)" for alc f
  proof -
    obtain ds stp af where m: "select_method (alc_method self) = Inr (ds, stp, af)"
      and a: "af ?X ?Y = Inr alc"
      using plot_learning_curve_InrD(5) [OF r] by blast
    from select_method_InrD [OF m] show ?thesis
    proof
      assume "alc_method self = ''step'' \<and> ds = ''steps-post'' \<and> stp = Some ''post''
                \<and> af = (\<lambda>X Y. Inr (auc_step X Y))"
      then show ?thesis using a by auto
    next
      assume t: "alc_method self = ''trapez'' \<and> ds = ''default'' \<and> stp = None \<and> af = auc"
      then have "auc ?X ?Y = Inr alc" using a by simp
      then have "alc = trapezoid ?X ?Y"
        by (rule auc_increasing) (simp add: curve_ends)
      then show ?thesis using t by simp
    qed
  qed
  have step: "fst ?r = Inr (auc_step ?X ?Y, new_fig self w)"
    if v: "check_conditions timestamps scores start_time = None" and t: "transform self = None"
      and c: "creates_figure self w" and k: "''drawstyle'' \<notin> dom (kwargs self)"
      and s: "alc_method self = ''step''"
  proof -
    have sm: "select_method (alc_method self)
                = Inr (''steps-post'', Some ''post'', \<lambda>X Y. Inr (auc_step X Y))"
      by (simp only: s select_method_step)
    have a: "(\<lambda>X Y. Inr (auc_step X Y)) ?X ?Y = (Inr (auc_step ?X ?Y) :: error + real)"
      by simp
    show ?thesis
      by (simp only: plot_learning_curve_returns [OF v t c sm a k] fst_conv)
  qed
  have trapez: "fst ?r = Inr (trapezoid ?X ?Y, new_fig self w)"
    if v: "check_conditions timestamps scores start_time = None" and t: "transform self = None"
      and c: "creates_figure self w" and k: "''drawstyle'' \<notin> dom (kwargs self)"
      and s: "alc_method self = ''trapez''" and b: "0 < time_budget"
  proof -
    have sm: "select_method (alc_method self) = Inr (''default'', None, auc)"
      by (simp only: s select_method_trapez)
    have len: "length timestamps = length scores" using v by (rule check_conditions_NoneD)
    have a: "auc ?X ?Y = Inr (trapezoid ?X ?Y)"
      using curve_X_sorted [OF v b] curve_lengths [OF len] by (rule auc_sorted)
    show ?thesis
      by (simp only: plot_learning_curve_returns [OF v t c sm a k] fst_conv)
  qed
  show ?thesis
    using area step trapez by blast
qed

theorem area_over_whole_curve_witness:
  "fst (plot_learning_curve (fst (default_plotter ''trapez'')) (snd (default_plotter ''trapez''))
          [0] [1] 0 7200) = Inr (1, 1)"
  using area_over_whole_curve [of "fst (default_plotter ''trapez'')"
          "snd (default_plotter ''trapez'')" "[0]" "[1]" 0 7200]
  by (simp add: default_plotter_facts check_conditions_one curve_one_at_start)

text \<open>
  C1 as stated fails: for one observation of score 1 at the start time, the step rule over the
  observed curve, without the appended point, gives 0, but the call returns 1.
\<close>

theorem area_excluding_endpoint_counterexample:
  "fst (plot_learning_curve (fst (default_plotter ''step'')) (snd (default_plotter ''step''))
          [0] [1] 0 7200) = Inr (1, 1)
   \<and> auc_step (butlast (curve_X [0] 0 7200)) (butlast (curve_Y [0] [1] 0 7200)) = 0"
  by (simp add: default_step_one curve_one_at_start)

end
